theory Spec2Isabelle
  imports Complex_Main "HOL-Library.Log_Nat"
begin

section \<open>Python values used by app\_consumo\_electrico.py\<close>

subsection \<open>Floats\<close>

text \<open>
  A Python \<open>float\<close> is an IEEE-754 binary64 number. A finite float is kept as the rational
  it denotes; the two infinities and NaN are separate values. The two zeros \<open>0.0\<close> and
  \<open>-0.0\<close> are one value \<open>Fin 0\<close>: they are equal under Python's \<open>==\<close>, and no operation
  of this program (product, quotient by \<open>1000.0\<close>, sum, comparison) tells them apart
  except in the printed sign of a zero.
\<close>

datatype pyfloat = Fin rat | PInf | NInf | NaN

definition pow2 :: "int \<Rightarrow> rat" where
  "pow2 k = (if 0 \<le> k then 2 ^ nat k else 1 / 2 ^ nat (- k))"

text \<open>The binary exponent of a positive rational: \<open>2 ^ ilog2 a \<le> a < 2 ^ (ilog2 a + 1)\<close>.\<close>

definition ilog2 :: "rat \<Rightarrow> int" where
  "ilog2 a = (if 1 \<le> a then bitlen \<lfloor>a\<rfloor> - 1 else - bitlen (\<lceil>1 / a\<rceil> - 1))"

definition round_half_even :: "rat \<Rightarrow> int" where
  "round_half_even x =
     (let f = \<lfloor>x\<rfloor>; r = x - of_int f
      in if r < 1 / 2 then f
         else if 1 / 2 < r then f + 1
         else if even f then f else f + 1)"

text \<open>
  Rounding of an exact result to the nearest binary64 number, ties to even: 53 significant
  bits, the spacing never below \<open>2 ^ - 1074\<close> (subnormal range), and an infinity when the
  rounded magnitude reaches \<open>2 ^ 1024\<close>.
\<close>

definition round_double :: "rat \<Rightarrow> pyfloat" where
  "round_double q =
     (if q = 0 then Fin 0
      else let a = \<bar>q\<bar>;
               u = pow2 (max (ilog2 a) (- 1022) - 52);
               r = of_int (round_half_even (a / u)) * u
           in if pow2 1024 \<le> r then (if 0 < q then PInf else NInf)
              else Fin (sgn q * r))"

fun fsign :: "pyfloat \<Rightarrow> rat" where
  "fsign (Fin a) = sgn a"
| "fsign PInf = 1"
| "fsign NInf = - 1"
| "fsign NaN = 0"

definition signed_inf :: "rat \<Rightarrow> pyfloat" where
  "signed_inf s = (if 0 < s then PInf else NInf)"

text \<open>\<open>x * y\<close> on floats.\<close>

fun fmul :: "pyfloat \<Rightarrow> pyfloat \<Rightarrow> pyfloat" where
  "fmul (Fin a) (Fin b) = round_double (a * b)"
| "fmul x y =
     (if x = NaN \<or> y = NaN \<or> fsign x * fsign y = 0 then NaN
      else signed_inf (fsign x * fsign y))"

text \<open>\<open>x + y\<close> on floats.\<close>

fun fadd :: "pyfloat \<Rightarrow> pyfloat \<Rightarrow> pyfloat" where
  "fadd (Fin a) (Fin b) = round_double (a + b)"
| "fadd NaN y = NaN"
| "fadd x NaN = NaN"
| "fadd PInf NInf = NaN"
| "fadd NInf PInf = NaN"
| "fadd PInf y = PInf"
| "fadd NInf y = NInf"
| "fadd (Fin a) y = y"

text \<open>The comparisons \<open>x > y\<close> and \<open>x <= y\<close>; every comparison with NaN is false.\<close>

fun fgt :: "pyfloat \<Rightarrow> pyfloat \<Rightarrow> bool" where
  "fgt (Fin a) (Fin b) = (b < a)"
| "fgt NaN y = False"
| "fgt x NaN = False"
| "fgt NInf y = False"
| "fgt x PInf = False"
| "fgt PInf y = True"
| "fgt (Fin a) NInf = True"

fun fle :: "pyfloat \<Rightarrow> pyfloat \<Rightarrow> bool" where
  "fle (Fin a) (Fin b) = (a \<le> b)"
| "fle NaN y = False"
| "fle x NaN = False"
| "fle NInf y = True"
| "fle x PInf = True"
| "fle PInf y = False"
| "fle (Fin a) NInf = False"

subsection \<open>Exceptions\<close>

text \<open>
  The exceptions the handlers can meet: a missing form key (Flask's \<open>BadRequestKeyError\<close>),
  a string that \<open>float()\<close> rejects, a float division by zero, a missing dictionary key and
  an operation on a value of the wrong type.
\<close>

datatype exn =
    BadRequestKeyError string
  | ValueError string
  | ZeroDivisionError
  | KeyError string
  | TypeError

text \<open>\<open>x / y\<close> on floats: Python raises on a zero divisor before any IEEE rule applies.\<close>

fun fdiv :: "pyfloat \<Rightarrow> pyfloat \<Rightarrow> exn + pyfloat" where
  "fdiv x (Fin b) =
     (if b = 0 then Inl ZeroDivisionError
      else case x of
             Fin a \<Rightarrow> Inr (round_double (a / b))
           | NaN \<Rightarrow> Inr NaN
           | _ \<Rightarrow> Inr (signed_inf (fsign x * sgn b)))"
| "fdiv x NaN = Inr NaN"
| "fdiv (Fin a) y = Inr (Fin 0)"
| "fdiv x y = Inr NaN"

subsection \<open>Strings\<close>

text \<open>
  Form values are modelled as ASCII strings. \<open>str.strip()\<close> removes the characters for
  which \<open>str.isspace()\<close> holds (codes 9 to 13 and 28 to 32 in ASCII); \<open>float()\<close> removes
  only the C whitespace (codes 9 to 13 and 32).
\<close>

definition c_space :: "char \<Rightarrow> bool" where
  "c_space c = (c \<in> set [CHR 0x09, CHR 0x0A, CHR 0x0B, CHR 0x0C, CHR 0x0D, CHR 0x20])"

definition py_space :: "char \<Rightarrow> bool" where
  "py_space c = (c_space c \<or> c \<in> set [CHR 0x1C, CHR 0x1D, CHR 0x1E, CHR 0x1F])"

definition strip_with :: "(char \<Rightarrow> bool) \<Rightarrow> string \<Rightarrow> string" where
  "strip_with sp s = rev (dropWhile sp (rev (dropWhile sp s)))"

definition strip :: "string \<Rightarrow> string" where
  "strip s = strip_with py_space s"

subsection \<open>The builtin \<open>float(str)\<close>\<close>

definition is_digit :: "char \<Rightarrow> bool" where
  "is_digit c = (c \<in> set ''0123456789'')"

text \<open>The value of a decimal digit: its position in the digit string.\<close>

definition digit_val :: "char \<Rightarrow> nat" where
  "digit_val c = length (takeWhile (\<lambda>d. d \<noteq> c) ''0123456789'')"

definition dec_val :: "string \<Rightarrow> nat" where
  "dec_val ds = foldl (\<lambda>acc c. 10 * acc + digit_val c) 0 ds"

definition pow10 :: "int \<Rightarrow> rat" where
  "pow10 k = (if 0 \<le> k then 10 ^ nat k else 1 / 10 ^ nat (- k))"

text \<open>
  An underscore is accepted only between two digits; \<open>prev\<close> is the character before the
  rest of the string (\<open>NUL\<close> at the start).
\<close>

fun underscores_ok :: "char \<Rightarrow> string \<Rightarrow> bool" where
  "underscores_ok prev [] = (prev \<noteq> CHR ''_'')"
| "underscores_ok prev (c # cs) =
     ((if c = CHR ''_'' then is_digit prev
       else if prev = CHR ''_'' then is_digit c else True)
      \<and> underscores_ok c cs)"

definition sign_split :: "string \<Rightarrow> bool \<times> string" where
  "sign_split s =
     (case s of
        c # t \<Rightarrow> if c = CHR ''-'' then (True, t) else if c = CHR ''+'' then (False, t) else (False, s)
      | [] \<Rightarrow> (False, s))"

definition lower :: "char \<Rightarrow> char" where
  "lower c =
     (case List.find (\<lambda>(u, l). u = c) (zip ''ABCDEFGHIJKLMNOPQRSTUVWXYZ'' ''abcdefghijklmnopqrstuvwxyz'') of
        Some (u, l) \<Rightarrow> l
      | None \<Rightarrow> c)"

text \<open>An optional sign followed by \<open>inf\<close>, \<open>infinity\<close> or \<open>nan\<close> in any letter case.\<close>

definition parse_inf_or_nan :: "string \<Rightarrow> pyfloat option" where
  "parse_inf_or_nan s =
     (let (neg, t) = sign_split s; w = map lower t
      in if w = ''inf'' \<or> w = ''infinity'' then Some (if neg then NInf else PInf)
         else if w = ''nan'' then Some NaN
         else None)"

text \<open>
  The exponent part of a decimal literal, after the digits: nothing, or \<open>e\<close> or \<open>E\<close>, an
  optional sign and at least one digit, up to the end of the string.
\<close>

definition parse_exponent :: "string \<Rightarrow> int option" where
  "parse_exponent s =
     (case s of
        [] \<Rightarrow> Some 0
      | c # t \<Rightarrow>
          if c = CHR ''e'' \<or> c = CHR ''E'' then
            (let (neg, d) = sign_split t
             in if d \<noteq> [] \<and> list_all is_digit d
                then Some (if neg then - int (dec_val d) else int (dec_val d))
                else None)
          else None)"

text \<open>
  A decimal literal: optional sign, digits, optional point and digits (at least one digit
  in all), optional exponent. The result is its exact value.
\<close>

definition parse_decimal :: "string \<Rightarrow> rat option" where
  "parse_decimal s =
     (let (neg, r1) = sign_split s;
          ip = takeWhile is_digit r1;
          r2 = dropWhile is_digit r1;
          (fp, r3) = (case r2 of
                        c # t \<Rightarrow> if c = CHR ''.'' then (takeWhile is_digit t, dropWhile is_digit t)
                                 else ([], r2)
                      | [] \<Rightarrow> ([], r2))
      in if ip = [] \<and> fp = [] then None
         else case parse_exponent r3 of
                None \<Rightarrow> None
              | Some ex \<Rightarrow>
                  Some ((if neg then - 1 else 1) * of_nat (dec_val (ip @ fp))
                        * pow10 (ex - int (length fp))))"

text \<open>
  \<open>float(s)\<close>: the underscores are checked and removed, the whitespace at both ends is
  dropped, and the rest must be a whole literal; a decimal literal is rounded to the
  nearest float. Anything else raises \<open>ValueError\<close>.
\<close>

definition py_float :: "string \<Rightarrow> exn + pyfloat" where
  "py_float s =
     (if \<not> underscores_ok (CHR 0x00) s then Inl (ValueError s)
      else let t = strip_with c_space (filter (\<lambda>c. c \<noteq> CHR ''_'') s)
           in case parse_inf_or_nan t of
                Some x \<Rightarrow> Inr x
              | None \<Rightarrow>
                  (case parse_decimal t of
                     Some q \<Rightarrow> Inr (round_double q)
                   | None \<Rightarrow> Inl (ValueError s)))"

section \<open>The application\<close>

subsection \<open>Entries, the record store and the flashed messages\<close>

text \<open>
  An entry of the list \<open>electrodomesticos\<close> is a Python dict with string keys; its values
  are strings or floats. The dict is kept as an association list, read with \<open>map_of\<close>.
\<close>

datatype pyval = Str string | Num pyfloat

type_synonym entry = "(string \<times> pyval) list"

text \<open>
  The messages passed to \<open>flash\<close>, one constructor for each call site:
  \<open>f"{nombre} agregado correctamente."\<close>, \<open>f"Error al agregar: {ex}"\<close>,
  \<open>'No hay datos para descargar.'\<close> and \<open>'Datos limpiados.'\<close>.
\<close>

datatype notice =
    Agregado string
  | ErrorAlAgregar exn
  | NoHayDatos
  | DatosLimpiados

text \<open>
  The state of the process as one client sees it: the global list and the messages
  flashed and not yet shown.
\<close>

record state =
  electrodomesticos :: "entry list"
  flashes :: "notice list"

definition init_state :: state where
  "init_state = \<lparr>electrodomesticos = [], flashes = []\<rparr>"

definition TARIFA :: int where
  "TARIFA = 700"

definition flash :: "notice \<Rightarrow> state \<Rightarrow> state" where
  "flash m s = s\<lparr>flashes := flashes s @ [m]\<rparr>"

subsection \<open>The page template\<close>

text \<open>The three badges of the recommendation column, chosen by the template's \<open>if\<close>, \<open>elif\<close>, \<open>else\<close>.\<close>

datatype badge = ALERTA | Advertencia | OK

definition classify :: "pyfloat \<Rightarrow> badge" where
  "classify consumo =
     (if fgt consumo (Fin 50) then ALERTA
      else if fgt consumo (Fin 30) then Advertencia
      else OK)"

text \<open>
  A table row: the three stored cells as they are (a missing key is Jinja's undefined
  value, \<open>None\<close> here), the two numbers handed to the \<open>'%.2f'\<close> and \<open>'%.0f'\<close>
  formats, and the badge. The decimal text of the numbers is not modelled.
\<close>

record row =
  r_nombre :: "pyval option"
  r_potencia_W :: "pyval option"
  r_horas_diarias :: "pyval option"
  r_consumo_mensual_kWh :: pyfloat
  r_costo_pesos :: pyfloat
  r_badge :: badge

datatype summary = NoItems | Table "row list" pyfloat pyfloat

record page =
  p_messages :: "notice list"
  p_summary :: summary
  p_tarifa :: int

text \<open>A number read by the template; formatting or comparing anything else raises.\<close>

definition tpl_num :: "entry \<Rightarrow> string \<Rightarrow> exn + pyfloat" where
  "tpl_num e k = (case map_of e k of Some (Num x) \<Rightarrow> Inr x | _ \<Rightarrow> Inl TypeError)"

definition render_row :: "entry \<Rightarrow> exn + row" where
  "render_row e =
     (case tpl_num e ''consumo_mensual_kWh'' of
        Inl ex \<Rightarrow> Inl ex
      | Inr consumo \<Rightarrow>
          (case tpl_num e ''costo_pesos'' of
             Inl ex \<Rightarrow> Inl ex
           | Inr costo \<Rightarrow>
               Inr \<lparr>r_nombre = map_of e ''nombre'',
                    r_potencia_W = map_of e ''potencia_W'',
                    r_horas_diarias = map_of e ''horas_diarias'',
                    r_consumo_mensual_kWh = consumo,
                    r_costo_pesos = costo,
                    r_badge = classify consumo\<rparr>))"

fun render_rows :: "entry list \<Rightarrow> exn + row list" where
  "render_rows [] = Inr []"
| "render_rows (e # es) =
     (case render_row e of
        Inl ex \<Rightarrow> Inl ex
      | Inr r \<Rightarrow> (case render_rows es of Inl ex \<Rightarrow> Inl ex | Inr rs \<Rightarrow> Inr (r # rs)))"

text \<open>
  \<open>render_template_string(BASE_HTML, ...)\<close>: the flashed messages, then the placeholder
  when \<open>items\<close> is empty and otherwise the rows and the line of totals.
\<close>

definition render_template :: "notice list \<Rightarrow> entry list \<Rightarrow> pyfloat \<Rightarrow> pyfloat \<Rightarrow> int \<Rightarrow> exn + page" where
  "render_template messages items total_consumo total_costo tarifa =
     (if items = [] then
        Inr \<lparr>p_messages = messages, p_summary = NoItems, p_tarifa = tarifa\<rparr>
      else case render_rows items of
             Inl ex \<Rightarrow> Inl ex
           | Inr rs \<Rightarrow>
               Inr \<lparr>p_messages = messages,
                    p_summary = Table rs total_consumo total_costo,
                    p_tarifa = tarifa\<rparr>)"

subsection \<open>The handlers\<close>

datatype response =
    Redirect string
  | Html page
  | Attachment string string "string list" "pyval list list"
  | ServerError exn

text \<open>\<open>e[k]\<close> used as a summand: the key must be there and hold a number.\<close>

definition item_num :: "entry \<Rightarrow> string \<Rightarrow> exn + pyfloat" where
  "item_num e k =
     (case map_of e k of
        None \<Rightarrow> Inl (KeyError k)
      | Some (Str v) \<Rightarrow> Inl TypeError
      | Some (Num x) \<Rightarrow> Inr x)"

text \<open>
  \<open>sum(e[k] for e in items)\<close>: the builtin adds the items to the start value \<open>0\<close> from
  left to right. (CPython from version 3.12 on adds floats with a compensated algorithm,
  which can change the last bit of a total of three or more items; the model is the plain
  addition of the versions before.)
\<close>

fun sum_from :: "pyfloat \<Rightarrow> string \<Rightarrow> entry list \<Rightarrow> exn + pyfloat" where
  "sum_from acc k [] = Inr acc"
| "sum_from acc k (e # es) =
     (case item_num e k of
        Inl ex \<Rightarrow> Inl ex
      | Inr x \<Rightarrow> sum_from (fadd acc x) k es)"

definition py_sum :: "string \<Rightarrow> entry list \<Rightarrow> exn + pyfloat" where
  "py_sum k items = sum_from (Fin 0) k items"

text \<open>
  \<open>index\<close>: the two totals, then the page. Rendering the page shows the flashed messages
  and removes them; an exception leaves them in place.
\<close>

definition index :: "state \<Rightarrow> response \<times> state" where
  "index s =
     (case py_sum ''costo_pesos'' (electrodomesticos s) of
        Inl ex \<Rightarrow> (ServerError ex, s)
      | Inr total_c \<Rightarrow>
          (case py_sum ''consumo_mensual_kWh'' (electrodomesticos s) of
             Inl ex \<Rightarrow> (ServerError ex, s)
           | Inr total_kwh \<Rightarrow>
               (case render_template (flashes s) (electrodomesticos s) total_kwh total_c TARIFA of
                  Inl ex \<Rightarrow> (ServerError ex, s)
                | Inr p \<Rightarrow> (Html p, s\<lparr>flashes := []\<rparr>))))"

text \<open>\<open>request.form[k]\<close>: the first value sent under the key, or a \<open>BadRequestKeyError\<close>.\<close>

type_synonym form = "(string \<times> string) list"

definition form_get :: "form \<Rightarrow> string \<Rightarrow> exn + string" where
  "form_get f k = (case map_of f k of None \<Rightarrow> Inl (BadRequestKeyError k) | Some v \<Rightarrow> Inr v)"

text \<open>
  The body of the \<open>try\<close> block of \<open>add\<close> up to the dict it appends; \<open>now\<close> is the text of
  \<open>datetime.now().isoformat()\<close>. The result is the trimmed name and the new entry.
\<close>

definition add_entry :: "form \<Rightarrow> string \<Rightarrow> exn + (string \<times> entry)" where
  "add_entry f now =
     (case form_get f ''nombre'' of
        Inl ex \<Rightarrow> Inl ex
      | Inr n \<Rightarrow>
     (let nombre = strip n in
      case form_get f ''potencia'' of
        Inl ex \<Rightarrow> Inl ex
      | Inr pv \<Rightarrow>
     (case py_float pv of
        Inl ex \<Rightarrow> Inl ex
      | Inr potencia \<Rightarrow>
     (case form_get f ''horas'' of
        Inl ex \<Rightarrow> Inl ex
      | Inr hv \<Rightarrow>
     (case py_float hv of
        Inl ex \<Rightarrow> Inl ex
      | Inr horas \<Rightarrow>
     (case fdiv (fmul potencia horas) (Fin 1000) of
        Inl ex \<Rightarrow> Inl ex
      | Inr consumo_diario \<Rightarrow>
     (let consumo_mensual = fmul consumo_diario (Fin 30);
          costo = fmul consumo_mensual (Fin (of_int TARIFA))
      in Inr (nombre,
              [(''nombre'', Str nombre),
               (''potencia_W'', Num potencia),
               (''horas_diarias'', Num horas),
               (''consumo_mensual_kWh'', Num consumo_mensual),
               (''costo_pesos'', Num costo),
               (''timestamp'', Str now)]))))))))"

text \<open>\<open>add\<close>: append and confirm, or flash the exception; redirect to the index in both cases.\<close>

definition add :: "form \<Rightarrow> string \<Rightarrow> state \<Rightarrow> response \<times> state" where
  "add f now s =
     (case add_entry f now of
        Inr (nombre, e) \<Rightarrow>
          (Redirect ''/'',
           flash (Agregado nombre) (s\<lparr>electrodomesticos := electrodomesticos s @ [e]\<rparr>))
      | Inl ex \<Rightarrow> (Redirect ''/'', flash (ErrorAlAgregar ex) s))"

definition fieldnames :: "string list" where
  "fieldnames =
     [''nombre'', ''potencia_W'', ''horas_diarias'', ''consumo_mensual_kWh'', ''costo_pesos'',
      ''timestamp'']"

text \<open>\<open>e.get(k, '')\<close>.\<close>

definition get_or_empty :: "entry \<Rightarrow> string \<Rightarrow> pyval" where
  "get_or_empty e k = (case map_of e k of None \<Rightarrow> Str [] | Some v \<Rightarrow> v)"

text \<open>The row handed to \<open>writer.writerow\<close>: \<open>{k: e.get(k, '') for k in fieldnames}\<close>, in column order.\<close>

definition csv_row :: "entry \<Rightarrow> pyval list" where
  "csv_row e = map (get_or_empty e) fieldnames"

text \<open>
  \<open>download_csv\<close>; \<open>stamp\<close> is the text of \<open>datetime.now().strftime('%Y%m%d_%H%M%S')\<close>.
  The attachment carries the file name, the MIME type, the header row and the data rows
  as cell values; the text the \<open>csv\<close> module makes of a cell is not modelled.
\<close>

definition download_csv :: "string \<Rightarrow> state \<Rightarrow> response \<times> state" where
  "download_csv stamp s =
     (if electrodomesticos s = [] then (Redirect ''/'', flash NoHayDatos s)
      else (Attachment (''consumo_'' @ stamp @ ''.csv'') ''text/csv'' fieldnames
              (map csv_row (electrodomesticos s)),
            s))"

definition clear_data :: "state \<Rightarrow> response \<times> state" where
  "clear_data s = (Redirect ''/'', flash DatosLimpiados (s\<lparr>electrodomesticos := []\<rparr>))"

subsection \<open>Requests\<close>

text \<open>The four routes, each with the inputs it reads from outside the process.\<close>

datatype request =
    GetIndex
  | PostAdd form string
  | GetDownload string
  | GetClear

fun handle :: "request \<Rightarrow> state \<Rightarrow> response \<times> state" where
  "handle GetIndex s = index s"
| "handle (PostAdd f now) s = add f now s"
| "handle (GetDownload stamp) s = download_csv stamp s"
| "handle GetClear s = clear_data s"

text \<open>The state after a sequence of requests.\<close>

fun run :: "request list \<Rightarrow> state \<Rightarrow> state" where
  "run [] s = s"
| "run (r # rs) s = run rs (snd (handle r s))"

subsection \<open>Predicates used in the statements\<close>

text \<open>A request is an add when it is a \<open>POST /add\<close>.\<close>

definition is_add :: "request \<Rightarrow> bool" where
  "is_add r = (case r of PostAdd f now \<Rightarrow> True | _ \<Rightarrow> False)"

text \<open>
  The derived fields of an entry are the ones \<open>add\<close> computes from its stored power and
  hours: \<open>(potencia * horas) / 1000.0 * 30\<close> and that energy times 700.
\<close>

definition derived_ok :: "entry \<Rightarrow> bool" where
  "derived_ok e =
     (case (map_of e ''potencia_W'', map_of e ''horas_diarias'') of
        (Some (Num p), Some (Num h)) \<Rightarrow>
          (case fdiv (fmul p h) (Fin 1000) of
             Inr d \<Rightarrow>
               map_of e ''consumo_mensual_kWh'' = Some (Num (fmul d (Fin 30))) \<and>
               map_of e ''costo_pesos'' = Some (Num (fmul (fmul d (Fin 30)) (Fin 700)))
           | Inl ex \<Rightarrow> False)
      | _ \<Rightarrow> False)"

section \<open>Properties\<close>

subsection \<open>The binary exponent\<close>

text \<open>\<open>ilog2\<close> brackets a positive rational between two consecutive powers of two.\<close>

lemma pow2_nonneg_eq: "0 \<le> k \<Longrightarrow> pow2 k = 2 ^ nat k"
  by (simp add: pow2_def)

lemma pow2_neg_eq: "0 \<le> k \<Longrightarrow> pow2 (- k) = 1 / 2 ^ nat k"
  by (cases "k = 0") (simp_all add: pow2_def)

lemma ilog2_bounds:
  assumes "0 < a"
  shows "pow2 (ilog2 a) \<le> a \<and> a < pow2 (ilog2 a + 1)"
proof (cases "1 \<le> a")
  case True
  let ?n = "\<lfloor>a\<rfloor>"
  let ?b = "bitlen ?n"
  have n: "0 < ?n"
    using True by simp
  from bitlen_bounds [OF n] have lo: "2 ^ nat (?b - 1) \<le> ?n" and hi: "?n < 2 ^ nat ?b"
    by simp_all
  have b1: "1 \<le> ?b"
    using n by (simp add: bitlen_alt_def)
  have "(2::rat) ^ nat (?b - 1) = of_int (2 ^ nat (?b - 1))"
    by simp
  also have "\<dots> \<le> of_int ?n"
    using lo by (simp only: of_int_le_iff)
  also have "\<dots> \<le> a"
    by simp
  finally have l: "pow2 (?b - 1) \<le> a"
    using b1 by (simp add: pow2_nonneg_eq)
  have "?n + 1 \<le> 2 ^ nat ?b"
    using hi by simp
  then have "(of_int (?n + 1) :: rat) \<le> of_int (2 ^ nat ?b)"
    by (simp only: of_int_le_iff)
  moreover have "a < of_int (?n + 1)"
    by linarith
  ultimately have "a < 2 ^ nat ?b"
    by simp
  then have u: "a < pow2 (?b - 1 + 1)"
    using b1 by (simp add: pow2_nonneg_eq)
  show ?thesis
    using True l u by (simp add: ilog2_def)
next
  case False
  let ?c = "\<lceil>1 / a\<rceil>"
  let ?m = "?c - 1"
  let ?j = "bitlen ?m"
  have inv: "1 < 1 / a"
    using False assms by simp
  then have m: "0 < ?m"
    by linarith
  from bitlen_bounds [OF m] have lo: "2 ^ nat (?j - 1) \<le> ?m" and hi: "?m < 2 ^ nat ?j"
    by simp_all
  have j1: "1 \<le> ?j"
    using m by (simp add: bitlen_alt_def)
  have "?c \<le> 2 ^ nat ?j"
    using hi by simp
  then have "(of_int ?c :: rat) \<le> of_int (2 ^ nat ?j)"
    by (simp only: of_int_le_iff)
  then have cj: "(of_int ?c :: rat) \<le> 2 ^ nat ?j"
    by simp
  have "1 / a \<le> of_int ?c"
    by (rule le_of_int_ceiling)
  from this cj have "1 / a \<le> 2 ^ nat ?j"
    by (rule order_trans)
  then have "1 / 2 ^ nat ?j \<le> a"
    using assms by (simp add: field_simps)
  then have l: "pow2 (- ?j) \<le> a"
    using j1 by (simp add: pow2_neg_eq)
  have "(of_int (2 ^ nat (?j - 1)) :: rat) \<le> of_int ?m"
    using lo by (simp only: of_int_le_iff)
  then have jm: "(2::rat) ^ nat (?j - 1) \<le> of_int ?m"
    by simp
  have "(of_int ?m :: rat) < 1 / a"
    by linarith
  with jm have "2 ^ nat (?j - 1) < 1 / a"
    by (rule le_less_trans)
  then have "a < 1 / 2 ^ nat (?j - 1)"
    using assms by (simp add: field_simps)
  moreover have "pow2 (- ?j + 1) = 1 / 2 ^ nat (?j - 1)"
    using j1 pow2_neg_eq [of "?j - 1"] by simp
  ultimately have u: "a < pow2 (- ?j + 1)"
    by simp
  show ?thesis
    using False l u by (simp add: ilog2_def)
qed

subsection \<open>Evaluating the float model on numerals\<close>

lemma bitlen_numeral: "bitlen (numeral k) = bitlen (numeral k div 2) + 1"
  by (subst compute_bitlen) simp

lemma bitlen_one: "bitlen 1 = 1"
  by (subst compute_bitlen) simp

lemma floor_rat_numeral_div: "\<lfloor>numeral a / numeral b :: rat\<rfloor> = numeral a div numeral b"
  by (metis floor_divide_of_int_eq of_int_numeral)

lemma floor_rat_one_div: "\<lfloor>1 / numeral b :: rat\<rfloor> = 1 div numeral b"
  by (metis floor_divide_of_int_eq of_int_numeral of_int_1)

lemma ceiling_rat_numeral_div: "\<lceil>numeral a / numeral b :: rat\<rceil> = - (- numeral a div numeral b)"
  by (metis ceiling_def floor_divide_of_int_eq minus_divide_left of_int_minus of_int_numeral)

lemma ceiling_rat_one_div: "\<lceil>1 / numeral b :: rat\<rceil> = - (- 1 div numeral b)"
  by (metis ceiling_def floor_divide_of_int_eq minus_divide_left of_int_minus of_int_numeral of_int_1)

lemmas float_eval = round_double_def ilog2_def round_half_even_def pow2_def Let_def
  bitlen_numeral bitlen_one floor_rat_numeral_div floor_rat_one_div
  ceiling_rat_numeral_div ceiling_rat_one_div

lemmas py_eval = py_float_def is_digit_def strip_with_def c_space_def
  parse_inf_or_nan_def sign_split_def lower_def parse_decimal_def parse_exponent_def
  dec_val_def digit_val_def pow10_def float_eval

lemmas app_eval = add_def add_entry_def form_get_def strip_def py_space_def flash_def
  TARIFA_def init_state_def item_num_def

subsection \<open>What the handlers do to the store\<close>

lemma fdiv_1000: "\<exists>d. fdiv x (Fin 1000) = Inr d"
  by (cases x) auto

lemma add_entry_Inr:
  assumes "add_entry f now = Inr (nombre, e)"
  shows "\<exists>n pv hv p h d.
           map_of f ''nombre'' = Some n \<and> nombre = strip n \<and>
           map_of f ''potencia'' = Some pv \<and> py_float pv = Inr p \<and>
           map_of f ''horas'' = Some hv \<and> py_float hv = Inr h \<and>
           fdiv (fmul p h) (Fin 1000) = Inr d \<and>
           e = [(''nombre'', Str nombre), (''potencia_W'', Num p), (''horas_diarias'', Num h),
                (''consumo_mensual_kWh'', Num (fmul d (Fin 30))),
                (''costo_pesos'', Num (fmul (fmul d (Fin 30)) (Fin 700))),
                (''timestamp'', Str now)]"
  using assms
  by (auto simp: add_entry_def form_get_def TARIFA_def Let_def split: option.splits sum.splits)

lemma add_entry_Inl:
  assumes "add_entry f now = Inl ex"
  shows "map_of f ''nombre'' = None \<or> map_of f ''potencia'' = None \<or> map_of f ''horas'' = None \<or>
         (\<exists>pv. map_of f ''potencia'' = Some pv \<and> py_float pv = Inl ex) \<or>
         (\<exists>hv. map_of f ''horas'' = Some hv \<and> py_float hv = Inl ex)"
proof -
  have "\<And>x. fdiv x (Fin 1000) \<noteq> Inl ex"
    using fdiv_1000 by (metis sum.distinct(1))
  then show ?thesis
    using assms
    by (auto simp: add_entry_def form_get_def Let_def split: option.splits sum.splits)
qed

lemma handle_store:
  "electrodomesticos (snd (handle r s)) = electrodomesticos s \<or>
   (r = GetClear \<and> electrodomesticos (snd (handle r s)) = []) \<or>
   (\<exists>f now nombre e. r = PostAdd f now \<and> add_entry f now = Inr (nombre, e) \<and>
      electrodomesticos (snd (handle r s)) = electrodomesticos s @ [e])"
  by (cases r)
     (auto simp: index_def add_def download_csv_def clear_data_def flash_def
           split: sum.splits prod.splits)

lemma run_invariant:
  assumes "\<And>f now nombre e. add_entry f now = Inr (nombre, e) \<Longrightarrow> P e"
    and "\<forall>e \<in> set (electrodomesticos s). P e"
  shows "\<forall>e \<in> set (electrodomesticos (run rs s)). P e"
  using assms(2)
proof (induction rs arbitrary: s)
  case Nil
  then show ?case by simp
next
  case (Cons r rs)
  have "\<forall>e \<in> set (electrodomesticos (snd (handle r s))). P e"
    using handle_store [of r s] Cons.prems assms(1) by auto
  then show ?case
    using Cons.IH by simp
qed

lemma add_entry_derived_ok: "add_entry f now = Inr (nombre, e) \<Longrightarrow> derived_ok e"
  by (drule add_entry_Inr) (auto simp: derived_ok_def)

lemma add_entry_fields:
  "add_entry f now = Inr (nombre, e) \<Longrightarrow> map fst e = fieldnames"
  by (drule add_entry_Inr) (auto simp: fieldnames_def)

lemma run_no_clear_prefix:
  "list_all (\<lambda>r. r \<noteq> GetClear) rs \<Longrightarrow>
   take (length (electrodomesticos s)) (electrodomesticos (run rs s)) = electrodomesticos s"
proof (induction rs arbitrary: s)
  case Nil
  then show ?case by simp
next
  case (Cons r rs)
  from Cons.prems have nc: "r \<noteq> GetClear" and rest: "list_all (\<lambda>r. r \<noteq> GetClear) rs"
    by simp_all
  let ?s1 = "snd (handle r s)"
  from handle_store [of r s] nc
  obtain ys where ys: "electrodomesticos ?s1 = electrodomesticos s @ ys"
    by auto
  have "take (length (electrodomesticos ?s1)) (electrodomesticos (run rs ?s1)) = electrodomesticos ?s1"
    using Cons.IH [OF rest] .
  then obtain zs where "electrodomesticos (run rs ?s1) = electrodomesticos ?s1 @ zs"
    by (metis append_take_drop_id)
  then have "take (length (electrodomesticos s)) (electrodomesticos (run rs ?s1)) = electrodomesticos s"
    by (simp add: ys)
  then show ?case by simp
qed

lemma add_entry_six:
  assumes "add_entry f now = Inr (nombre, e)"
  shows "map fst e = fieldnames \<and> length e = 6 \<and>
         (\<forall>k \<in> set fieldnames. map_of e k \<noteq> None) \<and> csv_row e = map snd e"
  using add_entry_Inr [OF assms]
  by (auto simp: fieldnames_def csv_row_def get_or_empty_def)

text \<open>One accepted add from the initial state, evaluated.\<close>

lemma run_lamp:
  "run [PostAdd [(''nombre'', '' Lampara ''), (''potencia'', ''10''), (''horas'', ''5'')] ''2024-01-01T12:00:00''] init_state
   = \<lparr>electrodomesticos =
        [[(''nombre'', Str ''Lampara''), (''potencia_W'', Num (Fin 10)), (''horas_diarias'', Num (Fin 5)),
          (''consumo_mensual_kWh'', Num (Fin (3 / 2))), (''costo_pesos'', Num (Fin 1050)),
          (''timestamp'', Str ''2024-01-01T12:00:00'')]],
      flashes = [Agregado ''Lampara'']\<rparr>"
  by (simp add: app_eval py_eval)

text \<open>Accepted and refused form values, evaluated.\<close>

lemma add_entry_nevera:
  "add_entry [(''nombre'', ''Nevera''), (''potencia'', ''150''), (''horas'', ''24'')] ''2024-01-01T08:00:00''
   = Inr (''Nevera'',
       [(''nombre'', Str ''Nevera''), (''potencia_W'', Num (Fin 150)), (''horas_diarias'', Num (Fin 24)),
        (''consumo_mensual_kWh'', Num (Fin 108)), (''costo_pesos'', Num (Fin 75600)),
        (''timestamp'', Str ''2024-01-01T08:00:00'')])"
  by (simp add: app_eval py_eval)

lemma add_entry_lampara:
  "add_entry [(''nombre'', '' Lampara ''), (''potencia'', ''10''), (''horas'', ''5'')] ''2024-01-01T12:00:00''
   = Inr (''Lampara'',
       [(''nombre'', Str ''Lampara''), (''potencia_W'', Num (Fin 10)), (''horas_diarias'', Num (Fin 5)),
        (''consumo_mensual_kWh'', Num (Fin (3 / 2))), (''costo_pesos'', Num (Fin 1050)),
        (''timestamp'', Str ''2024-01-01T12:00:00'')])"
  by (simp add: app_eval py_eval)

lemma add_entry_negative:
  "add_entry [(''nombre'', ''Panel''), (''potencia'', ''-100''), (''horas'', ''5'')] ''2024-01-01T09:00:00''
   = Inr (''Panel'',
       [(''nombre'', Str ''Panel''), (''potencia_W'', Num (Fin (- 100))), (''horas_diarias'', Num (Fin 5)),
        (''consumo_mensual_kWh'', Num (Fin (- 15))), (''costo_pesos'', Num (Fin (- 10500))),
        (''timestamp'', Str ''2024-01-01T09:00:00'')])"
  by (simp add: app_eval py_eval)

lemma add_entry_blank:
  "add_entry [(''nombre'', ''   ''), (''potencia'', ''10''), (''horas'', ''5'')] ''2024-01-01T12:00:00''
   = Inr ('''',
       [(''nombre'', Str ''''), (''potencia_W'', Num (Fin 10)), (''horas_diarias'', Num (Fin 5)),
        (''consumo_mensual_kWh'', Num (Fin (3 / 2))), (''costo_pesos'', Num (Fin 1050)),
        (''timestamp'', Str ''2024-01-01T12:00:00'')])"
  by (simp add: app_eval py_eval)

lemma add_entry_1_9:
  "add_entry [(''nombre'', ''x''), (''potencia'', ''1''), (''horas'', ''9'')] ''t''
   = Inr (''x'',
       [(''nombre'', Str ''x''), (''potencia_W'', Num (Fin 1)), (''horas_diarias'', Num (Fin 9)),
        (''consumo_mensual_kWh'', Num (Fin (4863887597560135 / 18014398509481984))),
        (''costo_pesos'', Num (Fin (6649846324789247 / 35184372088832))),
        (''timestamp'', Str ''t'')])"
  by (simp add: app_eval py_eval)

lemma float_003: "fmul (fmul (Fin 1) (Fin 9)) (round_double (3 / 100)) = Fin (607985949695017 / 2251799813685248)"
  by (simp add: float_eval)

lemma py_float_mil: "py_float ''mil'' = Inl (ValueError ''mil'')"
  by (simp add: py_eval)

lemma sums_nevera_lampara:
  "foldl fadd (Fin 0) [Fin 108, Fin (3 / 2)] = Fin (219 / 2) \<and> foldl fadd (Fin 0) [Fin 75600, Fin 1050] = Fin 76650"
  by (simp add: float_eval)

subsection \<open>The classifier\<close>

text \<open>
  C3, as the template decides it: the badge is ALERTA exactly when the energy is greater
  than 50, Advertencia exactly when it is greater than 30 and at most 50, and OK exactly
  when it is at most 30 or is NaN (both comparisons are false for NaN, so the \<open>else\<close>
  branch is taken). The boundary values 50 and 30 give Advertencia and OK.
\<close>

theorem classify_thresholds:
  "(classify c = ALERTA \<longleftrightarrow> fgt c (Fin 50)) \<and>
   (classify c = Advertencia \<longleftrightarrow> fgt c (Fin 30) \<and> fle c (Fin 50)) \<and>
   (classify c = OK \<longleftrightarrow> fle c (Fin 30) \<or> c = NaN) \<and>
   classify (Fin 50) = Advertencia \<and> classify (Fin 30) = OK"
  by (cases c) (auto simp: classify_def)

text \<open>
  The form value \<open>nan\<close> is a float for \<open>float()\<close>; the entry then stores a NaN energy, which
  is shown with the badge OK although \<open>NaN <= 30\<close> is false.
\<close>

theorem classify_nan_counterexample:
  "item_num (last (electrodomesticos (snd (add [(''nombre'', ''x''), (''potencia'', ''nan''), (''horas'', ''1'')] ''t'' init_state))))
     ''consumo_mensual_kWh'' = Inr NaN \<and>
   classify NaN = OK \<and> \<not> fle NaN (Fin 30)"
  by (simp add: app_eval py_eval classify_def)

subsection \<open>Clearing\<close>

text \<open>
  C10: \<open>clear_data\<close> on any store, the empty one included, redirects to the index, leaves
  the store empty and flashes the confirmation; a second \<open>clear_data\<close> leaves the store as
  the first one did.
\<close>

theorem clear_data_idempotent:
  "fst (clear_data s) = Redirect ''/'' \<and>
   electrodomesticos (snd (clear_data s)) = [] \<and>
   flashes (snd (clear_data s)) = flashes s @ [DatosLimpiados] \<and>
   electrodomesticos (snd (clear_data (snd (clear_data s)))) = electrodomesticos (snd (clear_data s))"
  by (simp add: clear_data_def flash_def)

text \<open>
  C6: after \<open>clear_data\<close>, whatever the store held, and after any further requests none
  of which is an add, the store is empty, both totals of \<open>index\<close> are 0, the page shows
  no rows, and the download is refused with a redirect.
\<close>

theorem clear_then_reads:
  assumes "list_all (\<lambda>r. \<not> is_add r) rs"
  shows "electrodomesticos (run rs (snd (clear_data s))) = [] \<and>
         py_sum ''consumo_mensual_kWh'' (electrodomesticos (run rs (snd (clear_data s)))) = Inr (Fin 0) \<and>
         py_sum ''costo_pesos'' (electrodomesticos (run rs (snd (clear_data s)))) = Inr (Fin 0) \<and>
         (\<exists>p. fst (index (run rs (snd (clear_data s)))) = Html p \<and> p_summary p = NoItems) \<and>
         fst (download_csv stamp (run rs (snd (clear_data s)))) = Redirect ''/''"
proof -
  have empty: "electrodomesticos (run rs t) = []" if "electrodomesticos t = []" for t
    using assms that
  proof (induction rs arbitrary: t)
    case Nil
    then show ?case by simp
  next
    case (Cons r rs)
    from Cons.prems have "\<not> is_add r" and rest: "list_all (\<lambda>r. \<not> is_add r) rs"
      by simp_all
    then have "electrodomesticos (snd (handle r t)) = []"
      using handle_store [of r t] Cons.prems(2) by (auto simp: is_add_def)
    then show ?case
      using Cons.IH [OF rest] by simp
  qed
  have "electrodomesticos (snd (clear_data s)) = []"
    by (simp add: clear_data_def flash_def)
  then have e: "electrodomesticos (run rs (snd (clear_data s))) = []"
    by (rule empty)
  show ?thesis
    by (simp add: e py_sum_def index_def render_template_def download_csv_def)
qed

text \<open>An instance: two reads, a second clear and a read, after clearing a one-entry store.\<close>

theorem clear_then_reads_witness:
  "list_all (\<lambda>r. \<not> is_add r) [GetIndex, GetDownload ''20240101_120000'', GetClear, GetIndex] \<and>
   electrodomesticos
     (run [GetIndex, GetDownload ''20240101_120000'', GetClear, GetIndex]
        (snd (clear_data \<lparr>electrodomesticos = [[(''nombre'', Str ''x'')]], flashes = []\<rparr>))) = [] \<and>
   py_sum ''consumo_mensual_kWh''
     (electrodomesticos
       (run [GetIndex, GetDownload ''20240101_120000'', GetClear, GetIndex]
          (snd (clear_data \<lparr>electrodomesticos = [[(''nombre'', Str ''x'')]], flashes = []\<rparr>)))) = Inr (Fin 0)"
proof -
  have h: "list_all (\<lambda>r. \<not> is_add r) [GetIndex, GetDownload ''20240101_120000'', GetClear, GetIndex]"
    by (simp add: is_add_def)
  from clear_then_reads [OF h] show ?thesis
    using h by blast
qed

subsection \<open>Entries in the store\<close>

text \<open>
  C7: in every state reached from the initial one, each stored entry has the energy and
  cost that \<open>add\<close> computes from the entry's own power and hours. The index and the
  download leave the store as it is, the clear empties it, and an add either leaves it
  as it is or appends one such entry at the end; so without a clear the entries already
  stored stay in place, unchanged, as a prefix of the store.
\<close>

theorem derived_fields_fixed:
  "(\<forall>e \<in> set (electrodomesticos (run rs init_state)). derived_ok e) \<and>
   electrodomesticos (snd (handle GetIndex s)) = electrodomesticos s \<and>
   electrodomesticos (snd (handle (GetDownload stamp) s)) = electrodomesticos s \<and>
   electrodomesticos (snd (handle GetClear s)) = [] \<and>
   (electrodomesticos (snd (handle (PostAdd f now) s)) = electrodomesticos s \<or>
    (\<exists>e. derived_ok e \<and>
         electrodomesticos (snd (handle (PostAdd f now) s)) = electrodomesticos s @ [e])) \<and>
   (list_all (\<lambda>r. r \<noteq> GetClear) rs \<longrightarrow>
      take (length (electrodomesticos s)) (electrodomesticos (run rs s)) = electrodomesticos s)"
proof -
  have inv: "\<forall>e \<in> set (electrodomesticos (run rs init_state)). derived_ok e"
    by (rule run_invariant) (auto simp: init_state_def intro: add_entry_derived_ok)
  have idx: "electrodomesticos (snd (handle GetIndex s)) = electrodomesticos s"
    using handle_store [of GetIndex s] by simp
  have dl: "electrodomesticos (snd (handle (GetDownload stamp) s)) = electrodomesticos s"
    using handle_store [of "GetDownload stamp" s] by simp
  have clr: "electrodomesticos (snd (handle GetClear s)) = []"
    by (simp add: clear_data_def flash_def)
  have ad: "electrodomesticos (snd (handle (PostAdd f now) s)) = electrodomesticos s \<or>
    (\<exists>e. derived_ok e \<and>
         electrodomesticos (snd (handle (PostAdd f now) s)) = electrodomesticos s @ [e])"
    using handle_store [of "PostAdd f now" s] add_entry_derived_ok by blast
  show ?thesis
    using inv idx dl clr ad run_no_clear_prefix by blast
qed

text \<open>An instance: the entry of one accepted add.\<close>

theorem derived_fields_fixed_witness:
  "electrodomesticos (run [PostAdd [(''nombre'', '' Lampara ''), (''potencia'', ''10''), (''horas'', ''5'')] ''2024-01-01T12:00:00''] init_state) \<noteq> [] \<and>
   derived_ok (hd (electrodomesticos (run [PostAdd [(''nombre'', '' Lampara ''), (''potencia'', ''10''), (''horas'', ''5'')] ''2024-01-01T12:00:00''] init_state)))"
proof -
  let ?rs = "[PostAdd [(''nombre'', '' Lampara ''), (''potencia'', ''10''), (''horas'', ''5'')] ''2024-01-01T12:00:00'']"
  have ne: "electrodomesticos (run ?rs init_state) \<noteq> []"
    by (simp only: run_lamp) simp
  then have "hd (electrodomesticos (run ?rs init_state)) \<in> set (electrodomesticos (run ?rs init_state))"
    by simp
  with derived_fields_fixed [of ?rs] ne show ?thesis
    by blast
qed

text \<open>
  C8: every entry of a reachable store has exactly the six keys of \<open>fieldnames\<close>, in that
  order; so \<open>e.get(k, '')\<close> finds every column's key, and the exported row is the list
  of the entry's six stored values.
\<close>

theorem entries_have_six_fields:
  "\<forall>e \<in> set (electrodomesticos (run rs init_state)).
     map fst e = fieldnames \<and> length e = 6 \<and>
     (\<forall>k \<in> set fieldnames. map_of e k \<noteq> None) \<and> csv_row e = map snd e"
  by (rule run_invariant) (auto simp: init_state_def dest: add_entry_six)

text \<open>An instance: the keys and the exported row of one accepted add.\<close>

theorem entries_have_six_fields_witness:
  "map fst (hd (electrodomesticos (run [PostAdd [(''nombre'', '' Lampara ''), (''potencia'', ''10''), (''horas'', ''5'')] ''2024-01-01T12:00:00''] init_state))) = fieldnames \<and>
   csv_row (hd (electrodomesticos (run [PostAdd [(''nombre'', '' Lampara ''), (''potencia'', ''10''), (''horas'', ''5'')] ''2024-01-01T12:00:00''] init_state)))
     = [Str ''Lampara'', Num (Fin 10), Num (Fin 5), Num (Fin (3 / 2)), Num (Fin 1050), Str ''2024-01-01T12:00:00'']"
proof -
  let ?rs = "[PostAdd [(''nombre'', '' Lampara ''), (''potencia'', ''10''), (''horas'', ''5'')] ''2024-01-01T12:00:00'']"
  have "hd (electrodomesticos (run ?rs init_state)) \<in> set (electrodomesticos (run ?rs init_state))"
    by (simp only: run_lamp) simp
  with entries_have_six_fields [of ?rs]
  have "map fst (hd (electrodomesticos (run ?rs init_state))) = fieldnames"
    and "csv_row (hd (electrodomesticos (run ?rs init_state))) = map snd (hd (electrodomesticos (run ?rs init_state)))"
    by blast+
  moreover have "map snd (hd (electrodomesticos (run ?rs init_state)))
     = [Str ''Lampara'', Num (Fin 10), Num (Fin 5), Num (Fin (3 / 2)), Num (Fin 1050), Str ''2024-01-01T12:00:00'']"
    by (simp only: run_lamp) simp
  ultimately show ?thesis by simp
qed

subsection \<open>The download\<close>

text \<open>
  C5: with an empty store the download only flashes its notice and redirects, and no
  attachment is built; otherwise it returns, without touching the state, an attachment
  with the header row \<open>fieldnames\<close> and one data row per entry in store order, and in a
  reachable state each data row is the entry's six stored values as they are.
\<close>

theorem download_csv_result:
  "(electrodomesticos s = [] \<longrightarrow> download_csv stamp s = (Redirect ''/'', flash NoHayDatos s)) \<and>
   (electrodomesticos s \<noteq> [] \<longrightarrow>
      download_csv stamp s =
        (Attachment (''consumo_'' @ stamp @ ''.csv'') ''text/csv'' fieldnames
           (map csv_row (electrodomesticos s)), s)) \<and>
   (s = run rs init_state \<longrightarrow>
      map csv_row (electrodomesticos s) = map (map snd) (electrodomesticos s))"
proof -
  have "map csv_row (electrodomesticos (run rs init_state)) = map (map snd) (electrodomesticos (run rs init_state))"
    using run_invariant [of "\<lambda>e. csv_row e = map snd e" init_state rs]
    by (auto simp: init_state_def dest: add_entry_six)
  then show ?thesis
    by (simp add: download_csv_def)
qed

text \<open>An instance: the refusal on the initial state and the file after one accepted add.\<close>

theorem download_csv_result_witness:
  "download_csv ''20240102_080000'' init_state = (Redirect ''/'', flash NoHayDatos init_state) \<and>
   fst (download_csv ''20240102_080000''
     (run [PostAdd [(''nombre'', '' Lampara ''), (''potencia'', ''10''), (''horas'', ''5'')] ''2024-01-01T12:00:00''] init_state))
   = Attachment ''consumo_20240102_080000.csv'' ''text/csv''
       [''nombre'', ''potencia_W'', ''horas_diarias'', ''consumo_mensual_kWh'', ''costo_pesos'', ''timestamp'']
       [[Str ''Lampara'', Num (Fin 10), Num (Fin 5), Num (Fin (3 / 2)), Num (Fin 1050), Str ''2024-01-01T12:00:00'']]"
proof -
  let ?rs = "[PostAdd [(''nombre'', '' Lampara ''), (''potencia'', ''10''), (''horas'', ''5'')] ''2024-01-01T12:00:00'']"
  have e0: "electrodomesticos init_state = []"
    by (simp add: init_state_def)
  have ne: "electrodomesticos (run ?rs init_state) \<noteq> []"
    by (simp only: run_lamp) simp
  have rows: "map (map snd) (electrodomesticos (run ?rs init_state))
     = [[Str ''Lampara'', Num (Fin 10), Num (Fin 5), Num (Fin (3 / 2)), Num (Fin 1050), Str ''2024-01-01T12:00:00'']]"
    by (simp only: run_lamp) simp
  from download_csv_result [of init_state "''20240102_080000''" "[]"] e0
  have a: "download_csv ''20240102_080000'' init_state = (Redirect ''/'', flash NoHayDatos init_state)"
    by blast
  from download_csv_result [of "run ?rs init_state" "''20240102_080000''" ?rs] ne
  have "fst (download_csv ''20240102_080000'' (run ?rs init_state))
     = Attachment (''consumo_'' @ ''20240102_080000'' @ ''.csv'') ''text/csv'' fieldnames
         (map (map snd) (electrodomesticos (run ?rs init_state)))"
    by simp
  then show ?thesis
    using a unfolding rows fieldnames_def by simp
qed

subsection \<open>The summary\<close>

lemma run_adds:
  assumes "list_all2 (\<lambda>(f, now) e. \<exists>nombre. add_entry f now = Inr (nombre, e)) reqs es"
  shows "electrodomesticos (run (map (\<lambda>(f, now). PostAdd f now) reqs) s) = electrodomesticos s @ es"
  using assms
proof (induction reqs es arbitrary: s rule: list_all2_induct)
  case Nil
  then show ?case by simp
next
  case (Cons r rs e es)
  obtain f now where r: "r = (f, now)"
    by (cases r)
  from Cons.hyps(1) r obtain nombre where "add_entry f now = Inr (nombre, e)"
    by auto
  then have "electrodomesticos (snd (add f now s)) = electrodomesticos s @ [e]"
    by (simp add: add_def flash_def)
  then show ?case
    using Cons.IH [of "snd (add f now s)"] by (simp add: r)
qed

lemma render_and_sum:
  assumes "list_all (\<lambda>e. \<exists>c k. map_of e ''consumo_mensual_kWh'' = Some (Num c) \<and>
                              map_of e ''costo_pesos'' = Some (Num k)) es"
  shows "\<exists>rows. render_rows es = Inr rows \<and> length rows = length es \<and>
           map (\<lambda>e. map_of e ''nombre'') es = map r_nombre rows \<and>
           map (\<lambda>e. map_of e ''consumo_mensual_kWh'') es = map (\<lambda>r. Some (Num (r_consumo_mensual_kWh r))) rows \<and>
           map (\<lambda>e. map_of e ''costo_pesos'') es = map (\<lambda>r. Some (Num (r_costo_pesos r))) rows \<and>
           map r_badge rows = map (\<lambda>r. classify (r_consumo_mensual_kWh r)) rows \<and>
           (\<forall>acc. sum_from acc ''consumo_mensual_kWh'' es = Inr (foldl fadd acc (map r_consumo_mensual_kWh rows))) \<and>
           (\<forall>acc. sum_from acc ''costo_pesos'' es = Inr (foldl fadd acc (map r_costo_pesos rows)))"
  using assms
proof (induction es)
  case Nil
  then show ?case by simp
next
  case (Cons e es)
  from Cons.prems obtain c k where
    c: "map_of e ''consumo_mensual_kWh'' = Some (Num c)" and
    k: "map_of e ''costo_pesos'' = Some (Num k)"
    by auto
  from Cons obtain rows where rows: "render_rows es = Inr rows" "length rows = length es"
    "map (\<lambda>e. map_of e ''nombre'') es = map r_nombre rows"
    "map (\<lambda>e. map_of e ''consumo_mensual_kWh'') es = map (\<lambda>r. Some (Num (r_consumo_mensual_kWh r))) rows"
    "map (\<lambda>e. map_of e ''costo_pesos'') es = map (\<lambda>r. Some (Num (r_costo_pesos r))) rows"
    "map r_badge rows = map (\<lambda>r. classify (r_consumo_mensual_kWh r)) rows"
    "\<And>acc. sum_from acc ''consumo_mensual_kWh'' es = Inr (foldl fadd acc (map r_consumo_mensual_kWh rows))"
    "\<And>acc. sum_from acc ''costo_pesos'' es = Inr (foldl fadd acc (map r_costo_pesos rows))"
    by auto
  let ?r = "\<lparr>r_nombre = map_of e ''nombre'', r_potencia_W = map_of e ''potencia_W'',
             r_horas_diarias = map_of e ''horas_diarias'', r_consumo_mensual_kWh = c,
             r_costo_pesos = k, r_badge = classify c\<rparr>"
  have r: "render_row e = Inr ?r"
    by (simp add: render_row_def tpl_num_def c k)
  have "render_rows (e # es) = Inr (?r # rows)"
    by (simp add: r rows(1))
  moreover have "\<And>acc. sum_from acc ''consumo_mensual_kWh'' (e # es)
      = Inr (foldl fadd acc (map r_consumo_mensual_kWh (?r # rows)))"
    by (simp add: item_num_def c rows(7))
  moreover have "\<And>acc. sum_from acc ''costo_pesos'' (e # es)
      = Inr (foldl fadd acc (map r_costo_pesos (?r # rows)))"
    by (simp add: item_num_def k rows(8))
  ultimately show ?case
    using rows(2-6) c k by (intro exI [of _ "?r # rows"]) simp
qed

text \<open>
  C4: after N accepted adds from the initial state the store holds their N entries in the
  order of the requests, and \<open>index\<close> renders one row per entry in that order, each row
  with the entry's stored name, energy and cost; the two totals are the sums, added from
  0 from left to right, of the stored energies and of the stored costs. Both totals are 0
  for an empty store.
\<close>

theorem summary_after_adds:
  assumes "list_all2 (\<lambda>(f, now) e. \<exists>nombre. add_entry f now = Inr (nombre, e)) reqs es"
    and "s = run (map (\<lambda>(f, now). PostAdd f now) reqs) init_state"
  shows "electrodomesticos s = es \<and>
         (\<exists>rows. render_rows es = Inr rows \<and> length rows = length reqs \<and>
            map (\<lambda>e. map_of e ''nombre'') es = map r_nombre rows \<and>
            map (\<lambda>e. map_of e ''consumo_mensual_kWh'') es = map (\<lambda>r. Some (Num (r_consumo_mensual_kWh r))) rows \<and>
            map (\<lambda>e. map_of e ''costo_pesos'') es = map (\<lambda>r. Some (Num (r_costo_pesos r))) rows \<and>
            py_sum ''consumo_mensual_kWh'' es = Inr (foldl fadd (Fin 0) (map r_consumo_mensual_kWh rows)) \<and>
            py_sum ''costo_pesos'' es = Inr (foldl fadd (Fin 0) (map r_costo_pesos rows)) \<and>
            fst (index s) =
              Html \<lparr>p_messages = flashes s,
                    p_summary = (if es = [] then NoItems
                                 else Table rows (foldl fadd (Fin 0) (map r_consumo_mensual_kWh rows))
                                        (foldl fadd (Fin 0) (map r_costo_pesos rows))),
                    p_tarifa = TARIFA\<rparr>) \<and>
         py_sum ''consumo_mensual_kWh'' [] = Inr (Fin 0) \<and> py_sum ''costo_pesos'' [] = Inr (Fin 0)"
proof -
  have store: "electrodomesticos s = es"
    using run_adds [OF assms(1), of init_state] assms(2) by (simp add: init_state_def)
  have len: "length reqs = length es"
    using assms(1) by (rule list_all2_lengthD)
  have "list_all (\<lambda>e. \<exists>c k. map_of e ''consumo_mensual_kWh'' = Some (Num c) \<and>
                              map_of e ''costo_pesos'' = Some (Num k)) es"
    using assms(1)
  proof (induction reqs es rule: list_all2_induct)
    case Nil
    then show ?case by simp
  next
    case (Cons r rs e es)
    then obtain f now nombre where "add_entry f now = Inr (nombre, e)"
      by (cases r) auto
    from add_entry_Inr [OF this]
    have "\<exists>c k. map_of e ''consumo_mensual_kWh'' = Some (Num c) \<and> map_of e ''costo_pesos'' = Some (Num k)"
      by auto
    then show ?case
      using Cons.IH by simp
  qed
  from render_and_sum [OF this] obtain rows where rows: "render_rows es = Inr rows" "length rows = length es"
    "map (\<lambda>e. map_of e ''nombre'') es = map r_nombre rows"
    "map (\<lambda>e. map_of e ''consumo_mensual_kWh'') es = map (\<lambda>r. Some (Num (r_consumo_mensual_kWh r))) rows"
    "map (\<lambda>e. map_of e ''costo_pesos'') es = map (\<lambda>r. Some (Num (r_costo_pesos r))) rows"
    "\<And>acc. sum_from acc ''consumo_mensual_kWh'' es = Inr (foldl fadd acc (map r_consumo_mensual_kWh rows))"
    "\<And>acc. sum_from acc ''costo_pesos'' es = Inr (foldl fadd acc (map r_costo_pesos rows))"
    by blast
  have idx: "fst (index s) =
              Html \<lparr>p_messages = flashes s,
                    p_summary = (if es = [] then NoItems
                                 else Table rows (foldl fadd (Fin 0) (map r_consumo_mensual_kWh rows))
                                        (foldl fadd (Fin 0) (map r_costo_pesos rows))),
                    p_tarifa = TARIFA\<rparr>"
    by (simp add: index_def py_sum_def store rows(1,6,7) render_template_def)
  show ?thesis
    using store rows(1-5) len idx by (auto simp: py_sum_def rows(6,7))
qed

text \<open>An instance: a refrigerator of 150 W used 24 hours and a lamp of 10 W used 5 hours.\<close>

theorem summary_after_adds_witness:
  "electrodomesticos
     (run [PostAdd [(''nombre'', ''Nevera''), (''potencia'', ''150''), (''horas'', ''24'')] ''2024-01-01T08:00:00'',
           PostAdd [(''nombre'', '' Lampara ''), (''potencia'', ''10''), (''horas'', ''5'')] ''2024-01-01T12:00:00'']
        init_state)
   = [[(''nombre'', Str ''Nevera''), (''potencia_W'', Num (Fin 150)), (''horas_diarias'', Num (Fin 24)),
       (''consumo_mensual_kWh'', Num (Fin 108)), (''costo_pesos'', Num (Fin 75600)),
       (''timestamp'', Str ''2024-01-01T08:00:00'')],
      [(''nombre'', Str ''Lampara''), (''potencia_W'', Num (Fin 10)), (''horas_diarias'', Num (Fin 5)),
       (''consumo_mensual_kWh'', Num (Fin (3 / 2))), (''costo_pesos'', Num (Fin 1050)),
       (''timestamp'', Str ''2024-01-01T12:00:00'')]] \<and>
   py_sum ''consumo_mensual_kWh''
     [[(''nombre'', Str ''Nevera''), (''potencia_W'', Num (Fin 150)), (''horas_diarias'', Num (Fin 24)),
       (''consumo_mensual_kWh'', Num (Fin 108)), (''costo_pesos'', Num (Fin 75600)),
       (''timestamp'', Str ''2024-01-01T08:00:00'')],
      [(''nombre'', Str ''Lampara''), (''potencia_W'', Num (Fin 10)), (''horas_diarias'', Num (Fin 5)),
       (''consumo_mensual_kWh'', Num (Fin (3 / 2))), (''costo_pesos'', Num (Fin 1050)),
       (''timestamp'', Str ''2024-01-01T12:00:00'')]] = Inr (Fin (219 / 2)) \<and>
   py_sum ''costo_pesos''
     [[(''nombre'', Str ''Nevera''), (''potencia_W'', Num (Fin 150)), (''horas_diarias'', Num (Fin 24)),
       (''consumo_mensual_kWh'', Num (Fin 108)), (''costo_pesos'', Num (Fin 75600)),
       (''timestamp'', Str ''2024-01-01T08:00:00'')],
      [(''nombre'', Str ''Lampara''), (''potencia_W'', Num (Fin 10)), (''horas_diarias'', Num (Fin 5)),
       (''consumo_mensual_kWh'', Num (Fin (3 / 2))), (''costo_pesos'', Num (Fin 1050)),
       (''timestamp'', Str ''2024-01-01T12:00:00'')]] = Inr (Fin 76650)"
proof -
  let ?reqs = "[([(''nombre'', ''Nevera''), (''potencia'', ''150''), (''horas'', ''24'')], ''2024-01-01T08:00:00''),
                ([(''nombre'', '' Lampara ''), (''potencia'', ''10''), (''horas'', ''5'')], ''2024-01-01T12:00:00'')]"
  let ?es = "[[(''nombre'', Str ''Nevera''), (''potencia_W'', Num (Fin 150)), (''horas_diarias'', Num (Fin 24)),
       (''consumo_mensual_kWh'', Num (Fin 108)), (''costo_pesos'', Num (Fin 75600)),
       (''timestamp'', Str ''2024-01-01T08:00:00'')],
      [(''nombre'', Str ''Lampara''), (''potencia_W'', Num (Fin 10)), (''horas_diarias'', Num (Fin 5)),
       (''consumo_mensual_kWh'', Num (Fin (3 / 2))), (''costo_pesos'', Num (Fin 1050)),
       (''timestamp'', Str ''2024-01-01T12:00:00'')]]"
  have h: "list_all2 (\<lambda>(f, now) e. \<exists>nombre. add_entry f now = Inr (nombre, e)) ?reqs ?es"
    by (simp add: add_entry_nevera add_entry_lampara)
  from summary_after_adds [OF h refl]
  obtain rows where store: "electrodomesticos (run (map (\<lambda>(f, now). PostAdd f now) ?reqs) init_state) = ?es"
    and rows: "render_rows ?es = Inr rows"
    and tk: "py_sum ''consumo_mensual_kWh'' ?es = Inr (foldl fadd (Fin 0) (map r_consumo_mensual_kWh rows))"
    and tc: "py_sum ''costo_pesos'' ?es = Inr (foldl fadd (Fin 0) (map r_costo_pesos rows))"
    by blast
  from rows have "map r_consumo_mensual_kWh rows = [Fin 108, Fin (3 / 2)]"
    and "map r_costo_pesos rows = [Fin 75600, Fin 1050]"
    by (auto simp: render_row_def tpl_num_def)
  with tk tc sums_nevera_lampara
  have "py_sum ''consumo_mensual_kWh'' ?es = Inr (Fin (219 / 2))" and "py_sum ''costo_pesos'' ?es = Inr (Fin 76650)"
    by simp_all
  moreover from store have "electrodomesticos
     (run [PostAdd [(''nombre'', ''Nevera''), (''potencia'', ''150''), (''horas'', ''24'')] ''2024-01-01T08:00:00'',
           PostAdd [(''nombre'', '' Lampara ''), (''potencia'', ''10''), (''horas'', ''5'')] ''2024-01-01T12:00:00'']
        init_state) = ?es"
    by simp
  ultimately show ?thesis
    by blast
qed

subsection \<open>Adding\<close>

text \<open>
  C2, as the code computes it: when the three form fields are present and the power and
  the hours parse as floats \<open>p\<close> and \<open>h\<close>, \<open>add\<close> appends an entry whose energy is the
  float result of \<open>(p * h) / 1000.0 * 30\<close>, each operation rounded to the nearest float,
  and whose cost is the float product of that energy and 700; no other rounding is
  applied, and the division never raises.
\<close>

theorem add_stores_energy_and_cost:
  assumes "form_get f ''nombre'' = Inr n"
    and "form_get f ''potencia'' = Inr pv" and "py_float pv = Inr p"
    and "form_get f ''horas'' = Inr hv" and "py_float hv = Inr h"
  shows "\<exists>d. fdiv (fmul p h) (Fin 1000) = Inr d \<and>
           electrodomesticos (snd (add f now s)) =
             electrodomesticos s @
               [[(''nombre'', Str (strip n)), (''potencia_W'', Num p), (''horas_diarias'', Num h),
                 (''consumo_mensual_kWh'', Num (fmul d (Fin 30))),
                 (''costo_pesos'', Num (fmul (fmul d (Fin 30)) (Fin 700))),
                 (''timestamp'', Str now)]]"
proof -
  obtain d where d: "fdiv (fmul p h) (Fin 1000) = Inr d"
    using fdiv_1000 by blast
  then show ?thesis
    using assms by (simp add: add_def add_entry_def flash_def TARIFA_def Let_def del: fdiv.simps)
qed

text \<open>An instance: power 1 and hours 9.\<close>

theorem add_stores_energy_and_cost_witness:
  "form_get [(''nombre'', ''x''), (''potencia'', ''1''), (''horas'', ''9'')] ''potencia'' = Inr ''1'' \<and>
   py_float ''1'' = Inr (Fin 1) \<and> py_float ''9'' = Inr (Fin 9) \<and>
   (\<exists>d. fdiv (fmul (Fin 1) (Fin 9)) (Fin 1000) = Inr d \<and>
        electrodomesticos (snd (add [(''nombre'', ''x''), (''potencia'', ''1''), (''horas'', ''9'')] ''t'' init_state)) =
          electrodomesticos init_state @
            [[(''nombre'', Str (strip ''x'')), (''potencia_W'', Num (Fin 1)), (''horas_diarias'', Num (Fin 9)),
              (''consumo_mensual_kWh'', Num (fmul d (Fin 30))),
              (''costo_pesos'', Num (fmul (fmul d (Fin 30)) (Fin 700))),
              (''timestamp'', Str ''t'')]])"
proof -
  let ?f = "[(''nombre'', ''x''), (''potencia'', ''1''), (''horas'', ''9'')]"
  have a: "form_get ?f ''nombre'' = Inr ''x''" and b: "form_get ?f ''potencia'' = Inr ''1''"
    and c: "form_get ?f ''horas'' = Inr ''9''"
    by (simp_all add: form_get_def)
  have p: "py_float ''1'' = Inr (Fin 1)" and h: "py_float ''9'' = Inr (Fin 9)"
    by (simp_all add: py_eval)
  from add_stores_energy_and_cost [OF a b p c h, of "''t''" init_state] b p h
  show ?thesis
    by blast
qed

text \<open>
  For power 1 and hours 9 the stored energy is the float 0.26999999999999996, while the
  float product \<open>1 * 9 * 0.03\<close> is 0.27: the two orders of evaluation round differently.
\<close>

theorem energy_times_003_counterexample:
  "map_of (last (electrodomesticos (snd (add [(''nombre'', ''x''), (''potencia'', ''1''), (''horas'', ''9'')] ''t'' init_state))))
     ''consumo_mensual_kWh'' = Some (Num (Fin (4863887597560135 / 18014398509481984))) \<and>
   fmul (fmul (Fin 1) (Fin 9)) (round_double (3 / 100)) = Fin (607985949695017 / 2251799813685248) \<and>
   Fin (4863887597560135 / 18014398509481984) \<noteq> Fin (607985949695017 / 2251799813685248)"
proof -
  have "map_of (last (electrodomesticos (snd (add [(''nombre'', ''x''), (''potencia'', ''1''), (''horas'', ''9'')] ''t'' init_state))))
     ''consumo_mensual_kWh'' = Some (Num (Fin (4863887597560135 / 18014398509481984)))"
    by (simp add: add_def add_entry_1_9 flash_def)
  moreover have "Fin (4863887597560135 / 18014398509481984) \<noteq> Fin (607985949695017 / 2251799813685248)"
    by simp
  ultimately show ?thesis
    using float_003 by blast
qed

text \<open>
  C1, as the code decides it: when a form field is missing, or the power or the hours is
  not accepted by \<open>float()\<close>, \<open>add\<close> leaves the store as it is, flashes the error and
  redirects to the index.
\<close>

theorem add_refuses_unparsable:
  assumes "map_of f ''nombre'' = None \<or> map_of f ''potencia'' = None \<or> map_of f ''horas'' = None \<or>
           (\<exists>pv ex. map_of f ''potencia'' = Some pv \<and> py_float pv = Inl ex) \<or>
           (\<exists>hv ex. map_of f ''horas'' = Some hv \<and> py_float hv = Inl ex)"
  shows "\<exists>ex. add f now s = (Redirect ''/'', s\<lparr>flashes := flashes s @ [ErrorAlAgregar ex]\<rparr>)"
proof (cases "add_entry f now")
  case (Inl ex)
  then have "add f now s = (Redirect ''/'', s\<lparr>flashes := flashes s @ [ErrorAlAgregar ex]\<rparr>)"
    by (simp add: add_def flash_def)
  then show ?thesis
    by (rule exI)
next
  case (Inr r)
  obtain nombre e where "r = (nombre, e)"
    by (cases r)
  with Inr have "add_entry f now = Inr (nombre, e)"
    by simp
  from add_entry_Inr [OF this] assms show ?thesis
    by auto
qed

text \<open>An instance: the power \<open>mil\<close> is not a number.\<close>

theorem add_refuses_unparsable_witness:
  "map_of [(''nombre'', ''Estufa''), (''potencia'', ''mil''), (''horas'', ''2'')] ''potencia'' = Some ''mil'' \<and>
   py_float ''mil'' = Inl (ValueError ''mil'') \<and>
   (\<exists>ex. add [(''nombre'', ''Estufa''), (''potencia'', ''mil''), (''horas'', ''2'')] ''t'' init_state
      = (Redirect ''/'', init_state\<lparr>flashes := flashes init_state @ [ErrorAlAgregar ex]\<rparr>))"
proof -
  let ?f = "[(''nombre'', ''Estufa''), (''potencia'', ''mil''), (''horas'', ''2'')]"
  have m: "map_of ?f ''potencia'' = Some ''mil''"
    by simp
  have h: "map_of ?f ''nombre'' = None \<or> map_of ?f ''potencia'' = None \<or> map_of ?f ''horas'' = None \<or>
           (\<exists>pv ex. map_of ?f ''potencia'' = Some pv \<and> py_float pv = Inl ex) \<or>
           (\<exists>hv ex. map_of ?f ''horas'' = Some hv \<and> py_float hv = Inl ex)"
    using m py_float_mil by blast
  from add_refuses_unparsable [OF h, of "''t''" init_state] m py_float_mil
  show ?thesis
    by blast
qed

text \<open>
  A name of blanks only and a negative power are both accepted: the handler trims the
  name and parses the numbers, and checks neither.
\<close>

theorem add_accepts_blank_name_counterexample:
  "electrodomesticos (snd (add [(''nombre'', ''   ''), (''potencia'', ''10''), (''horas'', ''5'')] ''2024-01-01T12:00:00'' init_state))
     = [[(''nombre'', Str ''''), (''potencia_W'', Num (Fin 10)), (''horas_diarias'', Num (Fin 5)),
         (''consumo_mensual_kWh'', Num (Fin (3 / 2))), (''costo_pesos'', Num (Fin 1050)),
         (''timestamp'', Str ''2024-01-01T12:00:00'')]] \<and>
   electrodomesticos (snd (add [(''nombre'', ''Panel''), (''potencia'', ''-100''), (''horas'', ''5'')] ''2024-01-01T09:00:00'' init_state))
     = [[(''nombre'', Str ''Panel''), (''potencia_W'', Num (Fin (- 100))), (''horas_diarias'', Num (Fin 5)),
         (''consumo_mensual_kWh'', Num (Fin (- 15))), (''costo_pesos'', Num (Fin (- 10500))),
         (''timestamp'', Str ''2024-01-01T09:00:00'')]] \<and>
   electrodomesticos init_state = []"
  by (simp add: add_def add_entry_blank add_entry_negative flash_def init_state_def)

text \<open>
  C9: \<open>add\<close> appends an entry for any form whose power and hours parse as floats, whatever
  their sign; a store with an entry of negative energy is reachable; and an energy that
  is at most 30, a negative one in particular, is classified and rendered as OK.
\<close>

theorem add_has_no_sign_check:
  "(form_get f ''nombre'' = Inr n \<and> form_get f ''potencia'' = Inr pv \<and> py_float pv = Inr p \<and>
    form_get f ''horas'' = Inr hv \<and> py_float hv = Inr h \<longrightarrow>
      (\<exists>e. electrodomesticos (snd (add f now s)) = electrodomesticos s @ [e] \<and>
            map_of e ''potencia_W'' = Some (Num p) \<and> map_of e ''horas_diarias'' = Some (Num h))) \<and>
   (\<exists>rs e c. e \<in> set (electrodomesticos (run rs init_state)) \<and>
      map_of e ''consumo_mensual_kWh'' = Some (Num c) \<and> fgt (Fin 0) c) \<and>
   (fle c (Fin 30) \<longrightarrow> classify c = OK) \<and>
   (fgt (Fin 0) c \<longrightarrow> fle c (Fin 30) \<and> classify c = OK) \<and>
   (render_row e = Inr r \<and> fle (r_consumo_mensual_kWh r) (Fin 30) \<longrightarrow> r_badge r = OK)"
proof -
  have a: "\<exists>e. electrodomesticos (snd (add f now s)) = electrodomesticos s @ [e] \<and>
            map_of e ''potencia_W'' = Some (Num p) \<and> map_of e ''horas_diarias'' = Some (Num h)"
    if "form_get f ''nombre'' = Inr n" "form_get f ''potencia'' = Inr pv" "py_float pv = Inr p"
       "form_get f ''horas'' = Inr hv" "py_float hv = Inr h"
  proof -
    obtain d where "fdiv (fmul p h) (Fin 1000) = Inr d"
      using fdiv_1000 by blast
    then show ?thesis
      using that by (simp add: add_def add_entry_def flash_def Let_def del: fdiv.simps)
  qed
  let ?rs = "[PostAdd [(''nombre'', ''Panel''), (''potencia'', ''-100''), (''horas'', ''5'')] ''2024-01-01T09:00:00'']"
  let ?e = "[(''nombre'', Str ''Panel''), (''potencia_W'', Num (Fin (- 100))), (''horas_diarias'', Num (Fin 5)),
         (''consumo_mensual_kWh'', Num (Fin (- 15))), (''costo_pesos'', Num (Fin (- 10500))),
         (''timestamp'', Str ''2024-01-01T09:00:00'')]"
  have "electrodomesticos (run ?rs init_state) = [?e]"
    by (simp add: add_def add_entry_negative flash_def init_state_def)
  then have "?e \<in> set (electrodomesticos (run ?rs init_state)) \<and>
      map_of ?e ''consumo_mensual_kWh'' = Some (Num (Fin (- 15))) \<and> fgt (Fin 0) (Fin (- 15))"
    by simp
  then have b: "\<exists>rs e c. e \<in> set (electrodomesticos (run rs init_state)) \<and>
      map_of e ''consumo_mensual_kWh'' = Some (Num c) \<and> fgt (Fin 0) c"
    by blast
  have c1: "fle c (Fin 30) \<longrightarrow> classify c = OK"
    by (cases c) (auto simp: classify_def)
  have c2: "fgt (Fin 0) c \<longrightarrow> fle c (Fin 30) \<and> classify c = OK"
    by (cases c) (auto simp: classify_def)
  have c3: "render_row e = Inr r \<and> fle (r_consumo_mensual_kWh r) (Fin 30) \<longrightarrow> r_badge r = OK"
  proof
    assume h: "render_row e = Inr r \<and> fle (r_consumo_mensual_kWh r) (Fin 30)"
    then have "r_badge r = classify (r_consumo_mensual_kWh r)"
      by (auto simp: render_row_def split: sum.splits)
    moreover have "classify (r_consumo_mensual_kWh r) = OK"
      using h by (cases "r_consumo_mensual_kWh r") (auto simp: classify_def)
    ultimately show "r_badge r = OK"
      by simp
  qed
  show ?thesis
    using a b c1 c2 c3 by blast
qed

text \<open>An instance: the power -100 with 5 hours gives the energy -15, shown as OK.\<close>

theorem add_has_no_sign_check_witness:
  "fgt (Fin 0) (Fin (- 15)) \<and> fle (Fin (- 15)) (Fin 30) \<and> classify (Fin (- 15)) = OK \<and>
   py_float ''-100'' = Inr (Fin (- 100)) \<and>
   (\<exists>e. electrodomesticos (snd (add [(''nombre'', ''Panel''), (''potencia'', ''-100''), (''horas'', ''5'')] ''t'' init_state))
           = electrodomesticos init_state @ [e] \<and>
         map_of e ''potencia_W'' = Some (Num (Fin (- 100))) \<and> map_of e ''horas_diarias'' = Some (Num (Fin 5)))"
proof -
  let ?f = "[(''nombre'', ''Panel''), (''potencia'', ''-100''), (''horas'', ''5'')]"
  have g: "fgt (Fin 0) (Fin (- 15))"
    by simp
  have f: "form_get ?f ''nombre'' = Inr ''Panel''" "form_get ?f ''potencia'' = Inr ''-100''"
    "form_get ?f ''horas'' = Inr ''5''"
    by (simp_all add: form_get_def)
  have p: "py_float ''-100'' = Inr (Fin (- 100))" and h: "py_float ''5'' = Inr (Fin 5)"
    by (simp_all add: py_eval)
  from add_has_no_sign_check [of ?f "''Panel''" "''-100''" "Fin (- 100)" "''5''" "Fin 5" "''t''" init_state "Fin (- 15)"]
    g f p h
  show ?thesis
    by blast
qed

end
